theory Spec2Isabelle
  imports Main "HOL-Library.Char_ord" "HOL-Library.List_Lexorder"
begin

section \<open>The Sphinx configuration script \<^verbatim>\<open>docs/conf.py\<close>\<close>

text \<open>
  The script has two functions, \<^verbatim>\<open>get_nb_exclusion_patterns\<close> and
  \<^verbatim>\<open>install_ijulia\<close>, and a module body that calls them and binds the
  configuration variables Sphinx reads. It takes three things from the process it runs
  in: the result of \<^verbatim>\<open>shutil.which\<close>, the mapping \<^verbatim>\<open>os.environ\<close>, and the
  exit status of the subprocesses it spawns. They are the fields of \<open>environment\<close>.
  Python compares strings by code point; every string of the script that is compared is
  ASCII, so the lexicographic order on \<open>char list\<close> is Python's order on them.
\<close>

record environment =
  which :: "string \<Rightarrow> string option"
  environ :: "string \<rightharpoonup> string"
  exit_status :: "string list \<Rightarrow> int"

text \<open>
  What the script does to the world: the subprocesses spawned, oldest first. The functions
  below work on any extension of this record, so that they can run inside the module's
  own state.
\<close>

record process =
  spawned :: "string list list"

text \<open>The exceptions the script can raise.\<close>

datatype py_error =
  CalledProcessError int "string list"
| NameError string
| KeyError string
| TypeError

subsection \<open>\<^verbatim>\<open>get_nb_exclusion_patterns\<close> (lines 26 to 54)\<close>

text \<open>The set literal bound to \<^verbatim>\<open>exclusions\<close> at lines 27 to 48.\<close>

definition exclusions :: "string set" where
  "exclusions = {
     ''adr/001/*'',
     ''adr/002/*'',
     ''report/000*'',
     ''report/001*'',
     ''report/002*'',
     ''report/005*'',
     ''report/008*'',
     ''report/009*'',
     ''report/010*'',
     ''report/011*'',
     ''report/012*'',
     ''report/013*'',
     ''report/014*'',
     ''report/015*'',
     ''report/017*'',
     ''report/018*'',
     ''report/020*'',
     ''report/021*'',
     ''report/022*'',
     ''report/033*''
   }"

text \<open>The set literal bound to \<^verbatim>\<open>julia_notebooks\<close> at lines 49 to 51.\<close>

definition julia_notebooks :: "string set" where
  "julia_notebooks = {''report/019*''}"

text \<open>
  \<^verbatim>\<open>exclusions.update(julia_notebooks)\<close> is set union; \<^verbatim>\<open>sorted\<close> of a set is the
  ascending list of its elements.
\<close>

definition get_nb_exclusion_patterns :: "environment \<Rightarrow> string list" where
  "get_nb_exclusion_patterns env =
     sorted_list_of_set
       (if which env ''julia'' = None \<or> ''READTHEDOCS'' \<in> dom (environ env)
        then exclusions \<union> julia_notebooks
        else exclusions)"

subsection \<open>\<^verbatim>\<open>install_ijulia\<close> (lines 57 to 61)\<close>

text \<open>
  \<^verbatim>\<open>subprocess.check_call\<close> spawns the command, waits for it, and raises
  \<^verbatim>\<open>CalledProcessError\<close> when the exit status is not zero.
\<close>

definition check_call ::
  "environment \<Rightarrow> string list \<Rightarrow> 'a process_scheme \<Rightarrow>
     (py_error + unit) \<times> 'a process_scheme" where
  "check_call env argv p =
     (let p' = p\<lparr>spawned := spawned p @ [argv]\<rparr>;
          retcode = exit_status env argv
      in if retcode \<noteq> 0 then (Inl (CalledProcessError retcode argv), p')
         else (Inr (), p'))"

definition install_ijulia ::
  "environment \<Rightarrow> 'a process_scheme \<Rightarrow> (py_error + unit) \<times> 'a process_scheme" where
  "install_ijulia env p =
     (if which env ''julia'' = None then (Inr (), p)
      else if ''EXECUTE_NB'' \<in> dom (environ env) \<or> ''FORCE_EXECUTE_NB'' \<in> dom (environ env)
      then check_call env [''julia'', ''InstallIJulia.jl''] p
      else (Inr (), p))"

section \<open>The module body (lines 64 to 288)\<close>

text \<open>
  The values the configuration holds: strings, booleans, integers, \<^verbatim>\<open>None\<close>, lists,
  tuples, and dictionaries with string keys (in insertion order; no dictionary display of
  the script repeats a key). A Python string is modelled by its UTF-8 bytes.
\<close>

datatype pyval =
  PNone
| PBool bool
| PInt int
| PStr string
| PList "pyval list"
| PTuple "pyval list"
| PDict "(string \<times> pyval) list"

text \<open>
  Lines 7 to 23 import modules and functions and extend \<^verbatim>\<open>sys.path\<close>. The names
  they bind are modules and functions, none of them the target of an assignment below;
  here the two functions of the script are HOL functions, and the store of the module
  holds its data values only.

  The functions imported from the package \<^verbatim>\<open>sphinx_api_relink\<close> are not part of the
  repository: they are taken to return, and what they return is a parameter.
  \<open>get_commit_sha\<close> stands for \<^verbatim>\<open>_get_commit_sha()\<close>, and \<open>builtin_format\<close> is
  Python's \<^verbatim>\<open>format\<close> on the values that are not strings.
\<close>

record externals =
  get_execution_mode :: string
  pin :: "string \<Rightarrow> string"
  pin_minor :: "string \<Rightarrow> string"
  get_commit_sha :: string
  builtin_format :: "pyval \<Rightarrow> string"

text \<open>
  The state of the running module: the processes spawned, the calls made into other
  modules for their effect, the module's global variables, and the log of the names that
  were bound, oldest first. Binding a name is the only operation that changes
  \<open>globals\<close>, and every binding is logged.
\<close>

record runtime = process +
  called :: "(string \<times> pyval list) list"
  globals :: "string \<rightharpoonup> pyval"
  assigned :: "string list"

type_synonym stmt = "runtime \<Rightarrow> (py_error + unit) \<times> runtime"

definition and_then :: "py_error + 'a \<Rightarrow> ('a \<Rightarrow> py_error + 'b) \<Rightarrow> py_error + 'b" where
  "and_then r f = (case r of Inl err \<Rightarrow> Inl err | Inr v \<Rightarrow> f v)"

text \<open>Reading a global variable raises \<^verbatim>\<open>NameError\<close> when the name is not bound.\<close>

definition load_name :: "string \<Rightarrow> runtime \<Rightarrow> py_error + pyval" where
  "load_name name s = (case globals s name of None \<Rightarrow> Inl (NameError name) | Some v \<Rightarrow> Inr v)"

text \<open>A replacement field \<^verbatim>\<open>{x}\<close> of an f-string: a string formats as itself.\<close>

definition format_value :: "externals \<Rightarrow> pyval \<Rightarrow> string" where
  "format_value ext v = (case v of PStr str \<Rightarrow> str | _ \<Rightarrow> builtin_format ext v)"

text \<open>\<^verbatim>\<open>d[key]\<close> on a dictionary; the script subscripts nothing else.\<close>

definition subscript :: "pyval \<Rightarrow> string \<Rightarrow> py_error + pyval" where
  "subscript d key =
     (case d of
        PDict items \<Rightarrow> (case map_of items key of None \<Rightarrow> Inl (KeyError key) | Some v \<Rightarrow> Inr v)
      | _ \<Rightarrow> Inl TypeError)"

text \<open>
  An assignment statement \<^verbatim>\<open>name = expression\<close>: the expression is evaluated in the
  current state; when it raises, nothing is bound.
\<close>

definition assign :: "string \<Rightarrow> (runtime \<Rightarrow> py_error + pyval) \<Rightarrow> stmt" where
  "assign name expression s =
     (case expression s of
        Inl err \<Rightarrow> (Inl err, s)
      | Inr v \<Rightarrow> (Inr (), s\<lparr>globals := (globals s)(name \<mapsto> v), assigned := assigned s @ [name]\<rparr>))"

text \<open>
  An expression statement that calls into another module for its effect
  (\<^verbatim>\<open>_list_technical_reports.main()\<close> and
  \<^verbatim>\<open>set_intersphinx_version_remapping(...)\<close>). The callee is not in the script and
  cannot reach its global variables; it is taken to return, and the call is recorded.
\<close>

definition call_external :: "string \<Rightarrow> pyval list \<Rightarrow> stmt" where
  "call_external f args s = (Inr (), s\<lparr>called := called s @ [(f, args)]\<rparr>)"

text \<open>Statements run in order; the first exception ends the run.\<close>

fun exec :: "stmt list \<Rightarrow> stmt" where
  "exec [] s = (Inr (), s)"
| "exec (st # sts) s =
     (case st s of
        (Inl err, s') \<Rightarrow> (Inl err, s')
      | (Inr u, s') \<Rightarrow> exec sts s')"

text \<open>
  The statements of the module from line 64 on, in source order. Within one expression
  each global name is read once, at its first use: no expression of the script changes
  the state, so every later read would give the same value.
\<close>

definition conf_py :: "externals \<Rightarrow> environment \<Rightarrow> stmt list" where
  "conf_py ext env = [
  \<comment> \<open>line 64\<close>
  call_external ''_list_technical_reports.main'' [],
  \<comment> \<open>line 65\<close>
  install_ijulia env,
  \<comment> \<open>lines 66 to 79\<close>
  call_external ''set_intersphinx_version_remapping'' [PDict [
          (''ipython'', PDict [(''8.12.2'', PStr ''8.12.1''), (''8.12.3'', PStr ''8.12.1'')]),
          (''ipywidgets'', PDict [
              (''8.0.3'', PStr ''8.0.5''),
              (''8.0.4'', PStr ''8.0.5''),
              (''8.0.6'', PStr ''8.0.5''),
              (''8.1.1'', PStr ''8.1.2'')]),
          (''matplotlib'', PDict [(''3.5.1'', PStr ''3.5.0'')]),
          (''mpl-interactions'', PDict [(''0.24.1'', PStr ''0.24.0'')])]],
  \<comment> \<open>line 81\<close>
  assign ''BRANCH'' (\<lambda>s.
      Inr (PStr (get_commit_sha ext))),
  \<comment> \<open>line 82\<close>
  assign ''ORGANIZATION'' (\<lambda>s.
      Inr (PStr ''ComPWA'')),
  \<comment> \<open>line 83\<close>
  assign ''REPO_NAME'' (\<lambda>s.
      Inr (PStr ''compwa.github.io'')),
  \<comment> \<open>line 84\<close>
  assign ''REPO_TITLE'' (\<lambda>s.
      Inr (PStr ''ComPWA Organization'')),
  \<comment> \<open>lines 86 to 88\<close>
  assign ''BINDER_LINK'' (\<lambda>s.
    and_then (load_name ''REPO_NAME'' s) (\<lambda>REPO_NAME.
    and_then (load_name ''BRANCH'' s) (\<lambda>BRANCH.
      Inr (PStr (''https://mybinder.org/v2/gh/ComPWA/'' @ format_value ext REPO_NAME @
          ''/'' @ format_value ext BRANCH @ ''?filepath=docs/usage''))))),
  \<comment> \<open>line 90\<close>
  assign ''autosectionlabel_prefix_document'' (\<lambda>s.
      Inr (PBool True)),
  \<comment> \<open>line 91\<close>
  assign ''bibtex_bibfiles'' (\<lambda>s.
      Inr (PList [PStr ''bibliography.bib''])),
  \<comment> \<open>line 92\<close>
  assign ''bibtex_reference_style'' (\<lambda>s.
      Inr (PStr ''author_year'')),
  \<comment> \<open>line 93\<close>
  assign ''codeautolink_concat_default'' (\<lambda>s.
      Inr (PBool True)),
  \<comment> \<open>lines 94 to 99\<close>
  assign ''codeautolink_global_preface'' (\<lambda>s.
      Inr (PStr (''\<newline>import matplotlib.pyplot as plt\<newline>import numpy '' @
          ''as np\<newline>import sympy as sp\<newline>from IPython.display '' @
          ''import display\<newline>''))),
  \<comment> \<open>lines 100 to 107\<close>
  assign ''comments_config'' (\<lambda>s.
    and_then (load_name ''ORGANIZATION'' s) (\<lambda>ORGANIZATION.
    and_then (load_name ''REPO_NAME'' s) (\<lambda>REPO_NAME.
      Inr (PDict [
          (''hypothesis'', PBool True),
          (''utterances'', PDict [
              (''repo'', PStr (format_value ext ORGANIZATION @ ''/'' @
                  format_value ext REPO_NAME)),
              (''issue-term'', PStr ''pathname''),
              (''label'', PStr ([CHR 0xF0, CHR 0x9F, CHR 0x93, CHR 0x9D] @
                  '' Docs''))])])))),
  \<comment> \<open>line 108\<close>
  assign ''copybutton_prompt_is_regexp'' (\<lambda>s.
      Inr (PBool True)),
  \<comment> \<open>line 109\<close>
  assign ''copybutton_prompt_text'' (\<lambda>s.
      Inr (PStr (''>>> |'' @ [CHR 0x5C] @ ''.'' @ [CHR 0x5C] @ ''.'' @ [CHR 0x5C] @
          ''. ''))),
  \<comment> \<open>line 110\<close>
  assign ''copyright'' (\<lambda>s.
    and_then (load_name ''ORGANIZATION'' s) (\<lambda>ORGANIZATION.
      Inr (PStr (''2020, '' @ format_value ext ORGANIZATION)))),
  \<comment> \<open>line 111\<close>
  assign ''default_role'' (\<lambda>s.
      Inr (PStr ''py:obj'')),
  \<comment> \<open>lines 112 to 118\<close>
  assign ''exclude_patterns'' (\<lambda>s.
      Inr (PList [
          PStr ''**.ipynb_checkpoints'',
          PStr ''*build'',
          PStr ''*template.md'',
          PStr ''adr/template.md'',
          PStr ''tests''])),
  \<comment> \<open>lines 119 to 137\<close>
  assign ''extensions'' (\<lambda>s.
      Inr (PList [
          PStr ''myst_nb'',
          PStr ''sphinx.ext.autosectionlabel'',
          PStr ''sphinx.ext.intersphinx'',
          PStr ''sphinx.ext.mathjax'',
          PStr ''sphinx.ext.napoleon'',
          PStr ''sphinx.ext.todo'',
          PStr ''sphinx_api_relink'',
          PStr ''sphinx_codeautolink'',
          PStr ''sphinx_comments'',
          PStr ''sphinx_copybutton'',
          PStr ''sphinx_design'',
          PStr ''sphinx_hep_pdgref'',
          PStr ''sphinx_pybtex_etal_style'',
          PStr ''sphinx_remove_toctrees'',
          PStr ''sphinx_thebe'',
          PStr ''sphinx_togglebutton'',
          PStr ''sphinxcontrib.bibtex''])),
  \<comment> \<open>line 138\<close>
  assign ''graphviz_output_format'' (\<lambda>s.
      Inr (PStr ''svg'')),
  \<comment> \<open>lines 139 to 141\<close>
  assign ''html_css_files'' (\<lambda>s.
      Inr (PList [
          PStr (''https://cdnjs.cloudflare.com/ajax/libs/font-awesome/6.1.1/css/al'' @
              ''l.min.css'')])),
  \<comment> \<open>line 142\<close>
  assign ''html_favicon'' (\<lambda>s.
      Inr (PStr ''_static/favicon.ico'')),
  \<comment> \<open>lines 143 to 146\<close>
  assign ''html_js_files'' (\<lambda>s.
      Inr (PList [
          PStr ''https://cdn.datatables.net/1.13.6/js/jquery.dataTables.min.js'',
          PStr (''https://cdnjs.cloudflare.com/ajax/libs/require.js/2.3.4/require.'' @
              ''min.js'')])),
  \<comment> \<open>line 147\<close>
  assign ''html_last_updated_fmt'' (\<lambda>s.
      Inr (PStr ''%-d %B %Y'')),
  \<comment> \<open>lines 148 to 150\<close>
  assign ''html_logo'' (\<lambda>s.
      Inr (PStr (''https://raw.githubusercontent.com/ComPWA/ComPWA/04e5199/doc/imag'' @
          ''es/logo.svg''))),
  \<comment> \<open>line 151\<close>
  assign ''html_show_copyright'' (\<lambda>s.
      Inr (PBool False)),
  \<comment> \<open>line 152\<close>
  assign ''html_static_path'' (\<lambda>s.
      Inr (PList [PStr ''_static''])),
  \<comment> \<open>line 153\<close>
  assign ''html_theme'' (\<lambda>s.
      Inr (PStr ''sphinx_book_theme'')),
  \<comment> \<open>lines 154 to 185\<close>
  assign ''html_theme_options'' (\<lambda>s.
    and_then (load_name ''ORGANIZATION'' s) (\<lambda>ORGANIZATION.
    and_then (load_name ''REPO_NAME'' s) (\<lambda>REPO_NAME.
    and_then (load_name ''BRANCH'' s) (\<lambda>BRANCH.
      Inr (PDict [
          (''icon_links'', PList [
              PDict [
                (''name'', PStr ''GitHub''),
                (''url'', PStr (''https://github.com/'' @ format_value ext ORGANIZATION)),
                (''icon'', PStr ''fa-brands fa-github'')],
              PDict [
                (''name'', PStr ''Zenodo''),
                (''url'', PStr ''https://doi.org/10.5281/zenodo.6908149''),
                (''icon'', PStr ''https://zenodo.org/badge/DOI/10.5281/zenodo.6908149.svg''),
                (''type'', PStr ''url'')]]),
          (''logo'', PDict [(''text'', PStr ''The ComPWA project'')]),
          (''repository_url'', PStr (''https://github.com/'' @
              format_value ext ORGANIZATION @ ''/'' @ format_value ext REPO_NAME)),
          (''repository_branch'', BRANCH),
          (''path_to_docs'', PStr ''docs''),
          (''use_download_button'', PBool False),
          (''use_edit_page_button'', PBool True),
          (''use_issues_button'', PBool True),
          (''use_repository_button'', PBool True),
          (''use_source_button'', PBool True),
          (''launch_buttons'', PDict [
              (''binderhub_url'', PStr ''https://mybinder.org''),
              (''colab_url'', PStr ''https://colab.research.google.com''),
              (''deepnote_url'', PStr ''https://deepnote.com''),
              (''notebook_interface'', PStr ''jupyterlab''),
              (''thebe'', PBool True)]),
          (''show_toc_level'', PInt 2)]))))),
  \<comment> \<open>line 186\<close>
  assign ''html_title'' (\<lambda>s.
      Inr (PStr ''Common Partial Wave Analysis Project'')),
  \<comment> \<open>lines 187 to 215\<close>
  assign ''intersphinx_mapping'' (\<lambda>s.
      Inr (PDict [
          (''ampform-0.14.x'', PTuple [PStr ''https://ampform.readthedocs.io/0.14.x'', PNone]),
          (''ampform'', PTuple [PStr ''https://ampform.readthedocs.io/stable'', PNone]),
          (''attrs'', PTuple [PStr (''https://www.attrs.org/en/'' @
              pin ext ''attrs''), PNone]),
          (''expertsystem'', PTuple [PStr ''https://expertsystem.readthedocs.io/stable'', PNone]),
          (''graphviz'', PTuple [PStr ''https://graphviz.readthedocs.io/en/stable'', PNone]),
          (''hepstats'', PTuple [PStr ''https://scikit-hep.org/hepstats'', PNone]),
          (''IPython'', PTuple [
              PStr (''https://ipython.readthedocs.io/en/'' @ pin ext ''IPython''),
              PNone]),
          (''ipywidgets'', PTuple [
              PStr (''https://ipywidgets.readthedocs.io/en/'' @ pin ext ''ipywidgets''),
              PNone]),
          (''jax'', PTuple [PStr ''https://jax.readthedocs.io/en/latest'', PNone]),
          (''matplotlib'', PTuple [PStr (''https://matplotlib.org/'' @
              pin ext ''matplotlib''), PNone]),
          (''mpl_interactions'', PTuple [
              PStr (''https://mpl-interactions.readthedocs.io/en/'' @
                  pin ext ''mpl-interactions''),
              PNone]),
          (''numba'', PTuple [PStr ''https://numba.pydata.org/numba-doc/latest'', PNone]),
          (''numpy'', PTuple [PStr (''https://numpy.org/doc/'' @
              pin_minor ext ''numpy''), PNone]),
          (''pdg'', PTuple [PStr ''https://pdgapi.lbl.gov/doc'', PNone]),
          (''plotly'', PTuple [PStr ''https://plotly.com/python-api-reference/'', PNone]),
          (''pwa'', PTuple [PStr ''https://pwa.readthedocs.io'', PNone]),
          (''python'', PTuple [PStr ''https://docs.python.org/3'', PNone]),
          (''qrules-0.9.x'', PTuple [PStr ''https://qrules.readthedocs.io/0.9.x'', PNone]),
          (''qrules'', PTuple [PStr ''https://qrules.readthedocs.io/stable'', PNone]),
          (''scipy'', PTuple [PStr ''https://docs.scipy.org/doc/scipy-1.7.0'', PNone]),
          (''sympy'', PTuple [PStr ''https://docs.sympy.org/latest'', PNone]),
          (''tensorwaves'', PTuple [PStr ''https://tensorwaves.readthedocs.io/stable'', PNone]),
          (''torch'', PTuple [PStr ''https://pytorch.org/docs/stable'', PNone]),
          (''zfit'', PTuple [PStr ''https://zfit.readthedocs.io/en/latest'', PNone])])),
  \<comment> \<open>line 216\<close>
  assign ''linkcheck_anchors'' (\<lambda>s.
      Inr (PBool False)),
  \<comment> \<open>lines 217 to 238\<close>
  assign ''linkcheck_ignore'' (\<lambda>s.
      Inr (PList [
          PStr ''http://127.0.0.1:8000'',
          PStr ''https://atom.io'',
          PStr ''https://doi.org/10.1002/andp.19955070504'',
          PStr ''https://doi.org/10.1155/2020/6674595'',
          PStr ''https://doi.org/10.7566/JPSCP.26.022002'',
          PStr ''https://downloads.hindawi.com'',
          PStr (''https://github.com/organizations/ComPWA/settings/repository-defa'' @
              ''ults''),
          PStr ''https://ieeexplore.ieee.org/document/6312940'',
          PStr ''https://indico.ific.uv.es/event/6803'',
          PStr ''https://journals.aps.org'',
          PStr ''https://leetcode.com'',
          PStr ''https://mybinder.org'',
          PStr ''https://open.vscode.dev'',
          PStr ''https://rosettacode.org'',
          PStr ''https://stackoverflow.com'',
          PStr ''https://via.placeholder.com'',
          PStr ''https://www.andiamo.co.uk/resources/iso-language-codes'',
          PStr ''https://www.bookfinder.com'',
          PStr ''https://github.com/ComPWA/RUB-EP1-AG/.*'',
          PStr (''https://github.com/orgs/ComPWA/projects/'' @ [CHR 0x5C] @ ''d+'')])),
  \<comment> \<open>lines 239 to 245\<close>
  assign ''myst_enable_extensions'' (\<lambda>s.
      Inr (PList [
          PStr ''amsmath'',
          PStr ''colon_fence'',
          PStr ''dollarmath'',
          PStr ''smartquotes'',
          PStr ''substitution''])),
  \<comment> \<open>line 246\<close>
  assign ''myst_heading_anchors'' (\<lambda>s.
      Inr (PInt 4)),
  \<comment> \<open>lines 247 to 262\<close>
  assign ''myst_substitutions'' (\<lambda>s.
    and_then (load_name ''BRANCH'' s) (\<lambda>BRANCH.
    and_then (load_name ''BINDER_LINK'' s) (\<lambda>BINDER_LINK.
      Inr (PDict [
          (''branch'', BRANCH),
          (''remark_019'', (if get_execution_mode ext \<noteq> ''off''
              then PStr (''Notice how a new file [`019/Project.toml`](./019/Project.toml) a'' @
                  ''nd  [`019/Manifest.toml`](./019/Manifest.toml) are automatically'' @
                  '' generated.'')
              else PStr '''')),
          (''run_interactive'', PStr (''\<newline>```{margin}\<newline>Run this notebook [on Binder]('' @
              format_value ext BINDER_LINK @
              '') or\<newline>{ref}`locally on Jupyter Lab <develop:Jupyter Note'' @
              ''books>` to interactively\<newline>modify the parameters.'' @
              ''\<newline>```\<newline>''))])))),
  \<comment> \<open>line 263\<close>
  assign ''myst_update_mathjax'' (\<lambda>s.
      Inr (PBool False)),
  \<comment> \<open>line 264\<close>
  assign ''nb_execution_excludepatterns'' (\<lambda>s.
      Inr (PList (map PStr (get_nb_exclusion_patterns env)))),
  \<comment> \<open>line 265\<close>
  assign ''nb_execution_mode'' (\<lambda>s.
      Inr (PStr (get_execution_mode ext))),
  \<comment> \<open>line 266\<close>
  assign ''nb_execution_show_tb'' (\<lambda>s.
      Inr (PBool True)),
  \<comment> \<open>line 267\<close>
  assign ''nb_execution_timeout'' (\<lambda>s.
      Inr (PInt (- 1))),
  \<comment> \<open>line 268\<close>
  assign ''nb_output_stderr'' (\<lambda>s.
      Inr (PStr ''remove'')),
  \<comment> \<open>line 269\<close>
  assign ''nitpicky'' (\<lambda>s.
      Inr (PBool True)),
  \<comment> \<open>line 270\<close>
  assign ''primary_domain'' (\<lambda>s.
      Inr (PStr ''py'')),
  \<comment> \<open>line 271\<close>
  assign ''project'' (\<lambda>s.
    and_then (load_name ''REPO_TITLE'' s) (\<lambda>REPO_TITLE.
      Inr (REPO_TITLE))),
  \<comment> \<open>lines 272 to 275\<close>
  assign ''remove_from_toctrees'' (\<lambda>s.
      Inr (PList [PStr ''adr/*'', PStr ''report/*''])),
  \<comment> \<open>lines 276 to 279\<close>
  assign ''source_suffix'' (\<lambda>s.
      Inr (PDict [(''.ipynb'', PStr ''myst-nb''), (''.md'', PStr ''myst-nb'')])),
  \<comment> \<open>lines 280 to 283\<close>
  assign ''suppress_warnings'' (\<lambda>s.
      Inr (PList [PStr ''myst.domains'', PStr ''mystnb.unknown_mime_type''])),
  \<comment> \<open>lines 284 to 287\<close>
  assign ''thebe_config'' (\<lambda>s.
    and_then (load_name ''html_theme_options'' s) (\<lambda>html_theme_options.
    and_then (subscript html_theme_options ''repository_url'') (\<lambda>item1.
    and_then (subscript html_theme_options ''repository_branch'') (\<lambda>item2.
      Inr (PDict [(''repository_url'', item1), (''repository_branch'', item2)]))))),
  \<comment> \<open>line 288\<close>
  assign ''todo_include_todos'' (\<lambda>s.
      Inr (PBool True))
  ]"

text \<open>The state in which the module starts: nothing spawned, nothing bound.\<close>

definition startup :: runtime where
  "startup = \<lparr>spawned = [], called = [], globals = Map.empty, assigned = []\<rparr>"

section \<open>Specification vocabulary for the module body\<close>

text \<open>The targets of the assignment statements of lines 81 to 288, in source order.\<close>

definition assignment_targets :: "string list" where
  "assignment_targets =
    [''BRANCH'', ''ORGANIZATION'', ''REPO_NAME'', ''REPO_TITLE'', ''BINDER_LINK'',
     ''autosectionlabel_prefix_document'', ''bibtex_bibfiles'',
     ''bibtex_reference_style'', ''codeautolink_concat_default'',
     ''codeautolink_global_preface'', ''comments_config'',
     ''copybutton_prompt_is_regexp'', ''copybutton_prompt_text'', ''copyright'',
     ''default_role'', ''exclude_patterns'', ''extensions'', ''graphviz_output_format'',
     ''html_css_files'', ''html_favicon'', ''html_js_files'', ''html_last_updated_fmt'',
     ''html_logo'', ''html_show_copyright'', ''html_static_path'', ''html_theme'',
     ''html_theme_options'', ''html_title'', ''intersphinx_mapping'',
     ''linkcheck_anchors'', ''linkcheck_ignore'', ''myst_enable_extensions'',
     ''myst_heading_anchors'', ''myst_substitutions'', ''myst_update_mathjax'',
     ''nb_execution_excludepatterns'', ''nb_execution_mode'', ''nb_execution_show_tb'',
     ''nb_execution_timeout'', ''nb_output_stderr'', ''nitpicky'', ''primary_domain'',
     ''project'', ''remove_from_toctrees'', ''source_suffix'', ''suppress_warnings'',
     ''thebe_config'', ''todo_include_todos'']"

text \<open>
  The global names read by the statements of lines 66 to 283 (all statements after the
  call of \<^verbatim>\<open>install_ijulia\<close> except the last two), in source order.
\<close>

definition conf_reads :: "string list list" where
  "conf_reads =
    [[], [], [], [], [], [''REPO_NAME'', ''BRANCH''], [], [], [], [], [],
     [''ORGANIZATION'', ''REPO_NAME''], [], [], [''ORGANIZATION''], [], [], [], [],
     [], [], [], [], [], [], [], [], [''ORGANIZATION'', ''REPO_NAME'', ''BRANCH''],
     [], [], [], [], [], [], [''BRANCH'', ''BINDER_LINK''], [], [], [], [], [], [],
     [], [], [''REPO_TITLE''], [], [], []]"

text \<open>
  \<open>binds ns st\<close>: statement \<open>st\<close>, when it returns, has bound exactly the names
  \<open>ns\<close> and left every other global as it was; when it raises, it has bound nothing.
\<close>

definition binds :: "string list \<Rightarrow> stmt \<Rightarrow> bool" where
  "binds ns st \<longleftrightarrow>
     (\<forall>s r s'. st s = (r, s') \<longrightarrow>
        (\<forall>n. n \<notin> set ns \<longrightarrow> globals s' n = globals s n) \<and>
        (case r of
           Inl err \<Rightarrow> globals s' = globals s \<and> assigned s' = assigned s
         | Inr u \<Rightarrow> assigned s' = assigned s @ ns \<and> set ns \<subseteq> dom (globals s')))"

text \<open>
  \<open>needs D st\<close>: statement \<open>st\<close> returns normally in every state in which the
  names \<open>D\<close> are bound.
\<close>

definition needs :: "string list \<Rightarrow> stmt \<Rightarrow> bool" where
  "needs D st \<longleftrightarrow> (\<forall>s. set D \<subseteq> dom (globals s) \<longrightarrow> fst (st s) = Inr ())"

text \<open>
  \<open>bound_before B nss Ds\<close>: each statement reads (\<open>Ds\<close>) only names that are
  in \<open>B\<close> or were bound (\<open>nss\<close>) by a statement before it.
\<close>

fun bound_before :: "string list \<Rightarrow> string list list \<Rightarrow> string list list \<Rightarrow> bool" where
  "bound_before B [] [] = True"
| "bound_before B (ns # nss) (D # Ds) = (set D \<subseteq> set B \<and> bound_before (ns @ B) nss Ds)"
| "bound_before B nss Ds = False"

subsection \<open>Sample environments\<close>

text \<open>
  Concrete environments on which the theorems below are exercised: with and without the
  interpreter on the search path, with and without the environment variables, and with a
  subprocess that fails or succeeds.
\<close>

definition env_bare :: environment where
  "env_bare = \<lparr>which = Map.empty, environ = Map.empty, exit_status = (\<lambda>argv. 0)\<rparr>"

definition env_julia :: environment where
  "env_julia = \<lparr>which = [''julia'' \<mapsto> ''/usr/local/bin/julia''],
                 environ = [''HOME'' \<mapsto> ''/root''],
                 exit_status = (\<lambda>argv. 0)\<rparr>"

definition env_julia_other :: environment where
  "env_julia_other = \<lparr>which = [''julia'' \<mapsto> ''/opt/julia/bin/julia''],
                       environ = [''EXECUTE_NB'' \<mapsto> ''yes''],
                       exit_status = (\<lambda>argv. 2)\<rparr>"

definition env_julia_execute :: environment where
  "env_julia_execute = \<lparr>which = [''julia'' \<mapsto> ''/usr/local/bin/julia''],
                         environ = [''EXECUTE_NB'' \<mapsto> ''1''],
                         exit_status = (\<lambda>argv. 0)\<rparr>"

definition env_julia_force_failing :: environment where
  "env_julia_force_failing = \<lparr>which = [''julia'' \<mapsto> ''/usr/local/bin/julia''],
                               environ = [''FORCE_EXECUTE_NB'' \<mapsto> ''1''],
                               exit_status = (\<lambda>argv. 1)\<rparr>"

definition env_no_julia_execute :: environment where
  "env_no_julia_execute = \<lparr>which = Map.empty,
                            environ = [''EXECUTE_NB'' \<mapsto> ''1'', ''FORCE_EXECUTE_NB'' \<mapsto> ''1''],
                            exit_status = (\<lambda>argv. 1)\<rparr>"

definition env_julia_readthedocs :: environment where
  "env_julia_readthedocs = \<lparr>which = [''julia'' \<mapsto> ''/usr/local/bin/julia''],
                             environ = [''READTHEDOCS'' \<mapsto> ''True''],
                             exit_status = (\<lambda>argv. 0)\<rparr>"

definition no_process :: process where
  "no_process = \<lparr>spawned = []\<rparr>"

definition ext_sample :: externals where
  "ext_sample = \<lparr>get_execution_mode = ''off'',
                  pin = (\<lambda>package. ''1.0.0''),
                  pin_minor = (\<lambda>package. ''1.0''),
                  get_commit_sha = ''0123abc'',
                  builtin_format = (\<lambda>v. ''None'')\<rparr>"

section \<open>The exclusion patterns\<close>

lemma sorted_exclusions:
  "sorted_list_of_set exclusions =
     [''adr/001/*'', ''adr/002/*'', ''report/000*'', ''report/001*'', ''report/002*'',
      ''report/005*'', ''report/008*'', ''report/009*'', ''report/010*'', ''report/011*'',
      ''report/012*'', ''report/013*'', ''report/014*'', ''report/015*'', ''report/017*'',
      ''report/018*'', ''report/020*'', ''report/021*'', ''report/022*'', ''report/033*'']"
  by (simp add: exclusions_def)

lemma sorted_exclusions_julia:
  "sorted_list_of_set (exclusions \<union> julia_notebooks) =
     [''adr/001/*'', ''adr/002/*'', ''report/000*'', ''report/001*'', ''report/002*'',
      ''report/005*'', ''report/008*'', ''report/009*'', ''report/010*'', ''report/011*'',
      ''report/012*'', ''report/013*'', ''report/014*'', ''report/015*'', ''report/017*'',
      ''report/018*'', ''report/019*'', ''report/020*'', ''report/021*'', ''report/022*'',
      ''report/033*'']"
  by (simp add: exclusions_def julia_notebooks_def)

lemma finite_exclusions: "finite exclusions"
  by (simp add: exclusions_def)

lemma finite_julia_notebooks: "finite julia_notebooks"
  by (simp add: julia_notebooks_def)

lemma julia_notebooks_fresh: "''report/019*'' \<notin> exclusions"
  by (simp add: exclusions_def)

lemma card_exclusions: "card exclusions = 20"
  by (simp add: exclusions_def)

lemma set_get_nb_exclusion_patterns:
  "set (get_nb_exclusion_patterns env) =
     (if which env ''julia'' = None \<or> ''READTHEDOCS'' \<in> dom (environ env)
      then exclusions \<union> julia_notebooks else exclusions)"
  by (simp add: get_nb_exclusion_patterns_def finite_exclusions finite_julia_notebooks)

lemma get_nb_exclusion_patterns_cases:
  "get_nb_exclusion_patterns env =
     (if which env ''julia'' = None \<or> ''READTHEDOCS'' \<in> dom (environ env)
      then sorted_list_of_set (exclusions \<union> julia_notebooks)
      else sorted_list_of_set exclusions)"
  by (simp add: get_nb_exclusion_patterns_def)

text \<open>
  Claim C3. When \<^verbatim>\<open>shutil.which("julia")\<close> finds nothing, the list returned by
  \<^verbatim>\<open>get_nb_exclusion_patterns\<close> contains the pattern \<^verbatim>\<open>report/019*\<close>.
\<close>

theorem julia_absent_excludes_019:
  assumes "which env ''julia'' = None"
  shows "''report/019*'' \<in> set (get_nb_exclusion_patterns env)"
  using assms by (simp add: set_get_nb_exclusion_patterns julia_notebooks_def)

theorem julia_absent_excludes_019_witness:
  "which env_bare ''julia'' = None \<and>
   ''report/019*'' \<in> set (get_nb_exclusion_patterns env_bare)"
proof -
  have absent: "which env_bare ''julia'' = None"
    by (simp add: env_bare_def)
  from julia_absent_excludes_019 [OF absent] absent show ?thesis
    by simp
qed

text \<open>
  Claim C4. When \<^verbatim>\<open>READTHEDOCS\<close> is a key of \<^verbatim>\<open>os.environ\<close>, the list returned by
  \<^verbatim>\<open>get_nb_exclusion_patterns\<close> contains the pattern \<^verbatim>\<open>report/019*\<close>, whatever
  \<^verbatim>\<open>shutil.which("julia")\<close> returns.
\<close>

theorem readthedocs_excludes_019:
  assumes "''READTHEDOCS'' \<in> dom (environ env)"
  shows "''report/019*'' \<in> set (get_nb_exclusion_patterns env)"
  using assms by (simp add: set_get_nb_exclusion_patterns julia_notebooks_def)

theorem readthedocs_excludes_019_witness:
  "''READTHEDOCS'' \<in> dom (environ env_julia_readthedocs) \<and>
   which env_julia_readthedocs ''julia'' \<noteq> None \<and>
   ''report/019*'' \<in> set (get_nb_exclusion_patterns env_julia_readthedocs)"
proof -
  have marker: "''READTHEDOCS'' \<in> dom (environ env_julia_readthedocs)"
    by (simp add: env_julia_readthedocs_def)
  have present: "which env_julia_readthedocs ''julia'' \<noteq> None"
    by (simp add: env_julia_readthedocs_def)
  from readthedocs_excludes_019 [OF marker] marker present show ?thesis
    by simp
qed

text \<open>
  Claim C5. The list returned by \<^verbatim>\<open>get_nb_exclusion_patterns\<close> depends on the
  environment only through two facts, whether \<^verbatim>\<open>shutil.which("julia")\<close> is
  \<^verbatim>\<open>None\<close> and whether \<^verbatim>\<open>READTHEDOCS\<close> is in \<^verbatim>\<open>os.environ\<close>: two environments
  that agree on both give the same list. In every environment the list is in ascending
  order and has no duplicates.
\<close>

theorem get_nb_exclusion_patterns_deterministic_sorted:
  "((which env1 ''julia'' = None) = (which env2 ''julia'' = None) \<and>
    (''READTHEDOCS'' \<in> dom (environ env1)) = (''READTHEDOCS'' \<in> dom (environ env2))
      \<longrightarrow> get_nb_exclusion_patterns env1 = get_nb_exclusion_patterns env2) \<and>
   sorted (get_nb_exclusion_patterns env1) \<and>
   distinct (get_nb_exclusion_patterns env1)"
proof (intro conjI impI)
  assume "(which env1 ''julia'' = None) = (which env2 ''julia'' = None) \<and>
    (''READTHEDOCS'' \<in> dom (environ env1)) = (''READTHEDOCS'' \<in> dom (environ env2))"
  then show "get_nb_exclusion_patterns env1 = get_nb_exclusion_patterns env2"
    unfolding get_nb_exclusion_patterns_def by presburger
next
  show "sorted (get_nb_exclusion_patterns env1)"
    by (simp add: get_nb_exclusion_patterns_def)
next
  show "distinct (get_nb_exclusion_patterns env1)"
    by (simp add: get_nb_exclusion_patterns_def)
qed

theorem get_nb_exclusion_patterns_deterministic_sorted_witness:
  "(which env_julia ''julia'' = None) = (which env_julia_other ''julia'' = None) \<and>
   (''READTHEDOCS'' \<in> dom (environ env_julia)) =
     (''READTHEDOCS'' \<in> dom (environ env_julia_other)) \<and>
   env_julia \<noteq> env_julia_other \<and>
   get_nb_exclusion_patterns env_julia = get_nb_exclusion_patterns env_julia_other \<and>
   sorted (get_nb_exclusion_patterns env_julia) \<and>
   distinct (get_nb_exclusion_patterns env_julia)"
proof -
  have same_which: "(which env_julia ''julia'' = None) = (which env_julia_other ''julia'' = None)"
    by (simp add: env_julia_def env_julia_other_def)
  have same_marker: "(''READTHEDOCS'' \<in> dom (environ env_julia)) =
      (''READTHEDOCS'' \<in> dom (environ env_julia_other))"
    by (simp add: env_julia_def env_julia_other_def)
  have "environ env_julia ''HOME'' \<noteq> environ env_julia_other ''HOME''"
    by (simp add: env_julia_def env_julia_other_def)
  then have different: "env_julia \<noteq> env_julia_other"
    by auto
  from get_nb_exclusion_patterns_deterministic_sorted [of env_julia env_julia_other]
    same_which same_marker different
  show ?thesis
    by blast
qed

text \<open>
  Claim C10. When \<^verbatim>\<open>julia\<close> is on the search path and \<^verbatim>\<open>READTHEDOCS\<close> is not in
  \<^verbatim>\<open>os.environ\<close>, \<^verbatim>\<open>get_nb_exclusion_patterns\<close> returns exactly the 20 patterns of
  the set literal of lines 27 to 48, in ascending order, and \<^verbatim>\<open>report/019*\<close> is not
  among them. In every environment the result contains all of these 20 patterns, and its
  length is 20 or 21.
\<close>

theorem get_nb_exclusion_patterns_base:
  "(which env ''julia'' \<noteq> None \<and> ''READTHEDOCS'' \<notin> dom (environ env) \<longrightarrow>
      get_nb_exclusion_patterns env =
        [''adr/001/*'', ''adr/002/*'', ''report/000*'', ''report/001*'', ''report/002*'',
         ''report/005*'', ''report/008*'', ''report/009*'', ''report/010*'', ''report/011*'',
         ''report/012*'', ''report/013*'', ''report/014*'', ''report/015*'', ''report/017*'',
         ''report/018*'', ''report/020*'', ''report/021*'', ''report/022*'', ''report/033*''] \<and>
      set (get_nb_exclusion_patterns env) = exclusions \<and>
      ''report/019*'' \<notin> set (get_nb_exclusion_patterns env)) \<and>
   card exclusions = 20 \<and>
   exclusions \<subseteq> set (get_nb_exclusion_patterns env) \<and>
   (length (get_nb_exclusion_patterns env) = 20 \<or> length (get_nb_exclusion_patterns env) = 21)"
proof -
  have superset: "exclusions \<subseteq> set (get_nb_exclusion_patterns env)"
    by (simp add: set_get_nb_exclusion_patterns)
  have len: "length (get_nb_exclusion_patterns env) = 20 \<or>
      length (get_nb_exclusion_patterns env) = 21"
    by (simp add: get_nb_exclusion_patterns_cases sorted_exclusions sorted_exclusions_julia)
  have base: "get_nb_exclusion_patterns env = sorted_list_of_set exclusions \<and>
      set (get_nb_exclusion_patterns env) = exclusions \<and>
      ''report/019*'' \<notin> set (get_nb_exclusion_patterns env)"
    if "which env ''julia'' \<noteq> None" and "''READTHEDOCS'' \<notin> dom (environ env)"
    using that julia_notebooks_fresh
    by (auto simp add: get_nb_exclusion_patterns_cases finite_exclusions)
  from superset len base card_exclusions show ?thesis
    by (simp only: sorted_exclusions) blast
qed

theorem get_nb_exclusion_patterns_base_witness:
  "which env_julia ''julia'' \<noteq> None \<and> ''READTHEDOCS'' \<notin> dom (environ env_julia) \<and>
   get_nb_exclusion_patterns env_julia =
     [''adr/001/*'', ''adr/002/*'', ''report/000*'', ''report/001*'', ''report/002*'',
      ''report/005*'', ''report/008*'', ''report/009*'', ''report/010*'', ''report/011*'',
      ''report/012*'', ''report/013*'', ''report/014*'', ''report/015*'', ''report/017*'',
      ''report/018*'', ''report/020*'', ''report/021*'', ''report/022*'', ''report/033*''] \<and>
   ''report/019*'' \<notin> set (get_nb_exclusion_patterns env_julia) \<and>
   length (get_nb_exclusion_patterns env_julia) = 20"
proof -
  have present: "which env_julia ''julia'' \<noteq> None"
    by (simp add: env_julia_def)
  have unmarked: "''READTHEDOCS'' \<notin> dom (environ env_julia)"
    by (simp add: env_julia_def)
  from get_nb_exclusion_patterns_base [of env_julia] present unmarked
  have result: "get_nb_exclusion_patterns env_julia =
     [''adr/001/*'', ''adr/002/*'', ''report/000*'', ''report/001*'', ''report/002*'',
      ''report/005*'', ''report/008*'', ''report/009*'', ''report/010*'', ''report/011*'',
      ''report/012*'', ''report/013*'', ''report/014*'', ''report/015*'', ''report/017*'',
      ''report/018*'', ''report/020*'', ''report/021*'', ''report/022*'', ''report/033*'']"
    and fresh: "''report/019*'' \<notin> set (get_nb_exclusion_patterns env_julia)"
    by blast+
  have "length (get_nb_exclusion_patterns env_julia) = 20"
    by (simp only: result) simp
  with present unmarked result fresh show ?thesis
    by blast
qed

section \<open>The installer\<close>

lemma spawned_check_call: "spawned (snd (check_call env argv p)) = spawned p @ [argv]"
  by (simp add: check_call_def Let_def)

lemma fst_check_call:
  "fst (check_call env argv p) =
     (if exit_status env argv \<noteq> 0 then Inl (CalledProcessError (exit_status env argv) argv)
      else Inr ())"
  by (simp add: check_call_def Let_def)

text \<open>
  Claim C1. When \<^verbatim>\<open>shutil.which("julia")\<close> finds the interpreter and at least one of
  \<^verbatim>\<open>EXECUTE_NB\<close> and \<^verbatim>\<open>FORCE_EXECUTE_NB\<close> is in \<^verbatim>\<open>os.environ\<close>, a call of
  \<^verbatim>\<open>install_ijulia\<close> spawns exactly one subprocess, with the command line
  \<^verbatim>\<open>julia InstallIJulia.jl\<close>: the log of spawned processes grows by this one entry,
  whatever the exit status.
\<close>

theorem install_ijulia_spawns_once:
  assumes "which env ''julia'' \<noteq> None"
    and "''EXECUTE_NB'' \<in> dom (environ env) \<or> ''FORCE_EXECUTE_NB'' \<in> dom (environ env)"
  shows "spawned (snd (install_ijulia env p)) = spawned p @ [[''julia'', ''InstallIJulia.jl'']]"
proof -
  from assms have "install_ijulia env p = check_call env [''julia'', ''InstallIJulia.jl''] p"
    unfolding install_ijulia_def by presburger
  then show ?thesis
    by (simp only: spawned_check_call)
qed

theorem install_ijulia_spawns_once_witness:
  "which env_julia_force_failing ''julia'' \<noteq> None \<and>
   (''EXECUTE_NB'' \<in> dom (environ env_julia_force_failing) \<or>
    ''FORCE_EXECUTE_NB'' \<in> dom (environ env_julia_force_failing)) \<and>
   spawned (snd (install_ijulia env_julia_force_failing no_process)) =
     [[''julia'', ''InstallIJulia.jl'']]"
proof -
  have present: "which env_julia_force_failing ''julia'' \<noteq> None"
    by (simp add: env_julia_force_failing_def)
  have enabled: "''EXECUTE_NB'' \<in> dom (environ env_julia_force_failing) \<or>
      ''FORCE_EXECUTE_NB'' \<in> dom (environ env_julia_force_failing)"
    by (simp add: env_julia_force_failing_def)
  have "spawned no_process = []"
    by (simp add: no_process_def)
  with install_ijulia_spawns_once [OF present enabled, of no_process] present enabled
  show ?thesis
    by simp
qed

text \<open>
  Claim C2. When \<^verbatim>\<open>shutil.which("julia")\<close> finds nothing, \<^verbatim>\<open>install_ijulia\<close>
  returns at once: it spawns no subprocess and raises nothing, whatever
  \<^verbatim>\<open>os.environ\<close> holds.
\<close>

theorem install_ijulia_julia_absent:
  assumes "which env ''julia'' = None"
  shows "install_ijulia env p = (Inr (), p)"
  using assms by (simp add: install_ijulia_def)

theorem install_ijulia_julia_absent_witness:
  "which env_no_julia_execute ''julia'' = None \<and>
   ''EXECUTE_NB'' \<in> dom (environ env_no_julia_execute) \<and>
   ''FORCE_EXECUTE_NB'' \<in> dom (environ env_no_julia_execute) \<and>
   spawned (snd (install_ijulia env_no_julia_execute no_process)) = []"
proof -
  have absent: "which env_no_julia_execute ''julia'' = None"
    by (simp add: env_no_julia_execute_def)
  have vars: "''EXECUTE_NB'' \<in> dom (environ env_no_julia_execute) \<and>
      ''FORCE_EXECUTE_NB'' \<in> dom (environ env_no_julia_execute)"
    by (simp add: env_no_julia_execute_def)
  from install_ijulia_julia_absent [OF absent, of no_process] absent vars show ?thesis
    by (simp add: no_process_def)
qed

text \<open>
  Claim C6. When the interpreter is on the search path and neither \<^verbatim>\<open>EXECUTE_NB\<close>
  nor \<^verbatim>\<open>FORCE_EXECUTE_NB\<close> is in \<^verbatim>\<open>os.environ\<close>, \<^verbatim>\<open>install_ijulia\<close> spawns no
  subprocess (and returns normally).
\<close>

theorem install_ijulia_not_enabled:
  assumes "which env ''julia'' \<noteq> None"
    and "''EXECUTE_NB'' \<notin> dom (environ env)"
    and "''FORCE_EXECUTE_NB'' \<notin> dom (environ env)"
  shows "install_ijulia env p = (Inr (), p)"
  using assms unfolding install_ijulia_def by presburger

theorem install_ijulia_not_enabled_witness:
  "which env_julia ''julia'' \<noteq> None \<and>
   ''EXECUTE_NB'' \<notin> dom (environ env_julia) \<and>
   ''FORCE_EXECUTE_NB'' \<notin> dom (environ env_julia) \<and>
   spawned (snd (install_ijulia env_julia no_process)) = []"
proof -
  have present: "which env_julia ''julia'' \<noteq> None"
    by (simp add: env_julia_def)
  have no_execute: "''EXECUTE_NB'' \<notin> dom (environ env_julia)"
    by (simp add: env_julia_def)
  have no_force: "''FORCE_EXECUTE_NB'' \<notin> dom (environ env_julia)"
    by (simp add: env_julia_def)
  from install_ijulia_not_enabled [OF present no_execute no_force, of no_process]
    present no_execute no_force
  show ?thesis
    by (simp add: no_process_def)
qed

text \<open>
  Claim C7. Whenever \<^verbatim>\<open>install_ijulia\<close> spawns its subprocess, the outcome of the call
  is decided by the exit status alone: a status other than zero makes
  \<^verbatim>\<open>install_ijulia\<close> raise the \<^verbatim>\<open>CalledProcessError\<close> of \<^verbatim>\<open>check_call\<close> (nothing
  catches it, and no second process is spawned), and status zero makes it return
  normally.
\<close>

theorem install_ijulia_propagates_failure:
  assumes "spawned (snd (install_ijulia env p)) \<noteq> spawned p"
  shows "fst (install_ijulia env p) =
           (if exit_status env [''julia'', ''InstallIJulia.jl''] \<noteq> 0
            then Inl (CalledProcessError (exit_status env [''julia'', ''InstallIJulia.jl''])
                        [''julia'', ''InstallIJulia.jl''])
            else Inr ()) \<and>
         spawned (snd (install_ijulia env p)) = spawned p @ [[''julia'', ''InstallIJulia.jl'']]"
proof -
  have "install_ijulia env p = check_call env [''julia'', ''InstallIJulia.jl''] p"
  proof (rule ccontr)
    assume "install_ijulia env p \<noteq> check_call env [''julia'', ''InstallIJulia.jl''] p"
    then have "install_ijulia env p = (Inr (), p)"
      unfolding install_ijulia_def by presburger
    with assms show False
      by simp
  qed
  then show ?thesis
    by (simp only: spawned_check_call fst_check_call)
qed

theorem install_ijulia_propagates_failure_witness:
  "spawned (snd (install_ijulia env_julia_other no_process)) \<noteq> spawned no_process \<and>
   fst (install_ijulia env_julia_other no_process) =
     Inl (CalledProcessError 2 [''julia'', ''InstallIJulia.jl'']) \<and>
   spawned (snd (install_ijulia env_julia_execute no_process)) \<noteq> spawned no_process \<and>
   fst (install_ijulia env_julia_execute no_process) = Inr ()"
proof -
  have failing: "spawned (snd (install_ijulia env_julia_other no_process)) \<noteq> spawned no_process"
    by (simp add: install_ijulia_def check_call_def env_julia_other_def no_process_def)
  have passing: "spawned (snd (install_ijulia env_julia_execute no_process)) \<noteq> spawned no_process"
    by (simp add: install_ijulia_def check_call_def env_julia_execute_def no_process_def)
  have "exit_status env_julia_other [''julia'', ''InstallIJulia.jl''] = 2"
    by (simp add: env_julia_other_def)
  moreover have "exit_status env_julia_execute [''julia'', ''InstallIJulia.jl''] = 0"
    by (simp add: env_julia_execute_def)
  ultimately show ?thesis
    using install_ijulia_propagates_failure [OF failing]
      install_ijulia_propagates_failure [OF passing] failing passing
    by simp
qed

section \<open>The module body\<close>

lemma binds_assign: "binds [name] (assign name expression)"
  unfolding binds_def assign_def by (auto split: sum.splits)

lemma binds_call_external: "binds [] (call_external f args)"
  unfolding binds_def call_external_def by auto

lemma binds_install_ijulia: "binds [] (install_ijulia env)"
  unfolding binds_def install_ijulia_def check_call_def by (auto simp add: Let_def)

lemma exec_append:
  "exec (sts @ sts') s =
     (case exec sts s of (Inl err, s') \<Rightarrow> (Inl err, s') | (Inr u, s') \<Rightarrow> exec sts' s')"
  by (induction sts arbitrary: s) (auto split: prod.splits sum.splits)

lemma exec_binds:
  assumes "list_all2 binds nss sts" and "exec sts s = (r, s')"
  shows "(\<forall>n. n \<notin> set (concat nss) \<longrightarrow> globals s' n = globals s n) \<and>
         (\<exists>k \<le> length nss. assigned s' = assigned s @ concat (take k nss)) \<and>
         (r = Inr () \<longrightarrow> assigned s' = assigned s @ concat nss \<and>
            dom (globals s') = dom (globals s) \<union> set (concat nss))"
  using assms
proof (induction nss sts arbitrary: s rule: list_all2_induct)
  case Nil
  then show ?case by auto
next
  case (Cons ns nss st sts)
  obtain r1 s1 where step: "st s = (r1, s1)"
    by (cases "st s")
  from Cons.hyps(1) step
  have frame1: "\<And>n. n \<notin> set ns \<Longrightarrow> globals s1 n = globals s n"
    and fail1: "\<And>err. r1 = Inl err \<Longrightarrow> globals s1 = globals s \<and> assigned s1 = assigned s"
    and pass1: "\<And>u. r1 = Inr u \<Longrightarrow> assigned s1 = assigned s @ ns \<and> set ns \<subseteq> dom (globals s1)"
    unfolding binds_def by (fastforce split: sum.splits)+
  show ?case
  proof (cases r1)
    case (Inl err)
    with step Cons.prems have "s' = s1" and "r = Inl err"
      by auto
    with fail1 [OF Inl] show ?thesis
      by (auto intro: exI [of _ 0])
  next
    case (Inr u)
    with step Cons.prems have rest: "exec sts s1 = (r, s')"
      by auto
    note ih = Cons.IH [OF rest]
    from ih obtain k where k: "k \<le> length nss" "assigned s' = assigned s1 @ concat (take k nss)"
      by blast
    have dom1: "dom (globals s1) = dom (globals s) \<union> set ns"
    proof (rule set_eqI)
      fix n
      show "n \<in> dom (globals s1) \<longleftrightarrow> n \<in> dom (globals s) \<union> set ns"
        using pass1 [OF Inr] frame1 [of n] by (cases "n \<in> set ns") (auto simp add: dom_def)
    qed
    have "\<forall>n. n \<notin> set (concat (ns # nss)) \<longrightarrow> globals s' n = globals s n"
      using ih frame1 by simp
    moreover have "\<exists>k \<le> length (ns # nss). assigned s' = assigned s @ concat (take k (ns # nss))"
      using k pass1 [OF Inr] by (intro exI [of _ "Suc k"]) simp
    moreover have "r = Inr () \<longrightarrow> assigned s' = assigned s @ concat (ns # nss) \<and>
        dom (globals s') = dom (globals s) \<union> set (concat (ns # nss))"
      using ih pass1 [OF Inr] dom1 by auto
    ultimately show ?thesis
      by blast
  qed
qed

lemma distinct_assignment_targets: "distinct assignment_targets"
  unfolding assignment_targets_def by simp

lemma length_assignment_targets: "length assignment_targets = 48"
  unfolding assignment_targets_def by simp

lemma conf_py_binds:
  "list_all2 binds ([[], [], []] @ map (\<lambda>name. [name]) assignment_targets) (conf_py ext env)"
  unfolding conf_py_def assignment_targets_def
  by (simp add: binds_assign binds_call_external binds_install_ijulia)

lemma install_ijulia_frame:
  "install_ijulia env s =
     (fst (install_ijulia env s), s\<lparr>spawned := spawned (snd (install_ijulia env s))\<rparr>)"
  unfolding install_ijulia_def check_call_def Let_def
  by simp

lemma needs_call_external: "needs [] (call_external f args)"
  by (simp add: needs_def call_external_def)

lemma needs_constant: "needs [] (assign name (\<lambda>s. Inr v))"
  by (simp add: needs_def assign_def)

lemma load_name_bound: "x \<in> dom (globals s) \<Longrightarrow> load_name x s = Inr (the (globals s x))"
  by (auto simp add: load_name_def)

lemma needs_load1:
  "needs [x] (assign name (\<lambda>s. and_then (load_name x s) (\<lambda>a. Inr (f a))))"
  by (simp add: needs_def assign_def and_then_def load_name_bound)

lemma needs_load2:
  "needs [x, y] (assign name (\<lambda>s.
     and_then (load_name x s) (\<lambda>a. and_then (load_name y s) (\<lambda>b. Inr (f a b)))))"
  by (simp add: needs_def assign_def and_then_def load_name_bound)

lemma needs_load3:
  "needs [x, y, z] (assign name (\<lambda>s.
     and_then (load_name x s) (\<lambda>a. and_then (load_name y s) (\<lambda>b.
     and_then (load_name z s) (\<lambda>c. Inr (f a b c))))))"
  by (simp add: needs_def assign_def and_then_def load_name_bound)

lemma exec_needs:
  assumes "list_all2 binds nss sts" and "list_all2 needs Ds sts"
    and "bound_before B nss Ds" and "set B \<subseteq> dom (globals s)"
  shows "fst (exec sts s) = Inr ()"
  using assms
proof (induction nss sts arbitrary: s B Ds rule: list_all2_induct)
  case Nil
  then show ?case by simp
next
  case (Cons ns nss st sts)
  from Cons.prems(1) obtain D Ds' where Ds: "Ds = D # Ds'" "needs D st" "list_all2 needs Ds' sts"
    by (auto simp add: list_all2_Cons2)
  from Cons.prems(2) Ds(1) have D: "set D \<subseteq> set B" and rest: "bound_before (ns @ B) nss Ds'"
    by simp_all
  from Ds(2) D Cons.prems(3) have "fst (st s) = Inr ()"
    unfolding needs_def by blast
  then obtain s1 where step: "st s = (Inr (), s1)"
    by (cases "st s") auto
  from Cons.hyps(1) step
  have frame: "\<And>n. n \<notin> set ns \<Longrightarrow> globals s1 n = globals s n"
    and bound: "set ns \<subseteq> dom (globals s1)"
    unfolding binds_def by fastforce+
  have "set (ns @ B) \<subseteq> dom (globals s1)"
  proof
    fix n
    assume n: "n \<in> set (ns @ B)"
    show "n \<in> dom (globals s1)"
    proof (cases "n \<in> set ns")
      case True
      with bound show ?thesis by blast
    next
      case False
      with n Cons.prems(3) frame [of n] show ?thesis
        by (auto simp add: dom_def)
    qed
  qed
  from Cons.IH [OF Ds(3) rest this] step show ?case
    by simp
qed

lemma length_conf_py: "length (conf_py ext env) = 51"
  by (simp add: conf_py_def)

lemma exec_split:
  assumes "exec sts s = (Inr (), s')"
  shows "\<exists>si. exec (take i sts) s = (Inr (), si) \<and> exec (drop i sts) si = (Inr (), s')"
proof -
  have "exec (take i sts @ drop i sts) s = (Inr (), s')"
    using assms by simp
  then show ?thesis
    unfolding exec_append by (auto split: prod.splits sum.splits)
qed

lemma exec_nth_frame:
  assumes "list_all2 binds nss sts" and "exec sts s = (Inr (), s')" and "i < length sts"
    and "n \<notin> set (concat (drop (Suc i) nss))"
  shows "\<exists>si si'. exec (take i sts) s = (Inr (), si) \<and> (sts ! i) si = (Inr (), si') \<and>
           exec (drop (Suc i) sts) si' = (Inr (), s') \<and> globals s' n = globals si' n"
proof -
  from exec_split [OF assms(2), of i] obtain si
    where before: "exec (take i sts) s = (Inr (), si)"
      and after: "exec (drop i sts) si = (Inr (), s')"
    by blast
  from assms(3) have "drop i sts = sts ! i # drop (Suc i) sts"
    by (simp add: Cons_nth_drop_Suc)
  with after obtain si' where step: "(sts ! i) si = (Inr (), si')"
    and rest: "exec (drop (Suc i) sts) si' = (Inr (), s')"
    by (auto split: prod.splits sum.splits)
  from assms(1) have "list_all2 binds (drop (Suc i) nss) (drop (Suc i) sts)"
    by (rule list_all2_dropI)
  from exec_binds [OF this rest] assms(4) have "globals s' n = globals si' n"
    by blast
  with before step rest show ?thesis
    by blast
qed

lemma conf_py_head:
  "take 2 (conf_py ext env) =
     [call_external ''_list_technical_reports.main'' [], install_ijulia env]"
  by (simp add: conf_py_def)

lemma conf_py_needs: "list_all2 needs conf_reads (take 47 (drop 2 (conf_py ext env)))"
  unfolding conf_py_def conf_reads_def
  by (simp add: needs_call_external needs_constant needs_load1 needs_load2 needs_load3)

lemma conf_py_bound_before:
  "bound_before [] (take 47 (drop 2 ([[], [], []] @ map (\<lambda>name. [name]) assignment_targets)))
     conf_reads"
  unfolding assignment_targets_def conf_reads_def by simp

lemma conf_py_html_theme_options:
  assumes "(conf_py ext env ! 29) s = (Inr (), s')"
  shows "\<exists>v a b. globals s' ''html_theme_options'' = Some v \<and>
           subscript v ''repository_url'' = Inr a \<and> subscript v ''repository_branch'' = Inr b"
  using assms unfolding conf_py_def
  by (auto simp add: assign_def and_then_def subscript_def split: sum.splits)

lemma conf_py_thebe_config:
  assumes "globals s ''html_theme_options'' = Some v"
    and "subscript v ''repository_url'' = Inr a"
    and "subscript v ''repository_branch'' = Inr b"
  shows "fst (exec (drop 49 (conf_py ext env)) s) = Inr ()"
  using assms unfolding conf_py_def
  by (simp add: assign_def and_then_def load_name_def)

lemma fst_install_ijulia: "fst (install_ijulia env p) = fst (install_ijulia env q)"
  by (simp add: install_ijulia_def check_call_def Let_def)

lemma install_ijulia_globals:
  assumes "install_ijulia env s = (r, s')"
  shows "globals s' = globals s" and "assigned s' = assigned s" and "called s' = called s"
proof -
  from assms install_ijulia_frame [of env s]
  have "s' = s\<lparr>spawned := spawned (snd (install_ijulia env s))\<rparr>"
    by simp
  then show "globals s' = globals s" and "assigned s' = assigned s" and "called s' = called s"
    by simp_all
qed

lemma conf_py_start:
  "exec (conf_py ext env) startup =
     (case install_ijulia env (startup\<lparr>called := [(''_list_technical_reports.main'', [])]\<rparr>) of
        (Inl err, s') \<Rightarrow> (Inl err, s')
      | (Inr u, s') \<Rightarrow> exec (drop 2 (conf_py ext env)) s')"
proof -
  have "exec (conf_py ext env) startup =
      exec (take 2 (conf_py ext env) @ drop 2 (conf_py ext env)) startup"
    by simp
  also have "\<dots> = (case exec (take 2 (conf_py ext env)) startup of
      (Inl err, s') \<Rightarrow> (Inl err, s') | (Inr u, s') \<Rightarrow> exec (drop 2 (conf_py ext env)) s')"
    by (rule exec_append)
  also have "exec (take 2 (conf_py ext env)) startup =
      (case install_ijulia env (startup\<lparr>called := [(''_list_technical_reports.main'', [])]\<rparr>) of
         (Inl err, s') \<Rightarrow> (Inl err, s') | (Inr u, s') \<Rightarrow> (Inr (), s'))"
    unfolding conf_py_head
    by (auto simp add: call_external_def startup_def split: prod.splits sum.splits)
  finally show ?thesis
    by (auto split: prod.splits sum.splits)
qed

lemma conf_py_aborts:
  assumes "fst (install_ijulia env startup) = Inl err"
  shows "fst (exec (conf_py ext env) startup) = Inl err"
proof -
  from assms fst_install_ijulia [of env startup]
  have "fst (install_ijulia env (startup\<lparr>called := [(''_list_technical_reports.main'', [])]\<rparr>))
      = Inl err"
    by metis
  then show ?thesis
    unfolding conf_py_start by (auto split: prod.splits sum.splits)
qed

lemma conf_py_completes:
  assumes "fst (install_ijulia env startup) = Inr ()"
  shows "fst (exec (conf_py ext env) startup) = Inr ()"
proof -
  let ?conf = "conf_py ext env"
  let ?nss = "[[], [], []] @ map (\<lambda>name. [name]) assignment_targets"
  let ?s0 = "startup\<lparr>called := [(''_list_technical_reports.main'', [])]\<rparr>"
  from assms fst_install_ijulia [of env startup ?s0]
  have "fst (install_ijulia env ?s0) = Inr ()"
    by simp
  then obtain s2 where installed: "install_ijulia env ?s0 = (Inr (), s2)"
    by (cases "install_ijulia env ?s0") auto
  from install_ijulia_globals(1) [OF installed] have empty: "globals s2 = Map.empty"
    by (simp add: startup_def)
  from installed have whole: "exec ?conf startup = exec (drop 2 ?conf) s2"
    unfolding conf_py_start by simp
  have binds_all: "list_all2 binds ?nss ?conf"
    by (rule conf_py_binds)
  \<comment> \<open>lines 66 to 283\<close>
  have binds_mid: "list_all2 binds (take 47 (drop 2 ?nss)) (take 47 (drop 2 ?conf))"
    by (intro list_all2_takeI list_all2_dropI binds_all)
  have "fst (exec (take 47 (drop 2 ?conf)) s2) = Inr ()"
    by (rule exec_needs [OF binds_mid conf_py_needs conf_py_bound_before]) simp
  then obtain s49 where mid: "exec (take 47 (drop 2 ?conf)) s2 = (Inr (), s49)"
    by (cases "exec (take 47 (drop 2 ?conf)) s2") auto
  have split: "drop 2 ?conf = take 47 (drop 2 ?conf) @ drop 49 ?conf"
  proof -
    have further: "drop 49 ?conf = drop 47 (drop 2 ?conf)"
      by simp
    show ?thesis
      unfolding further by (simp only: append_take_drop_id)
  qed
  have rest: "exec (drop 2 ?conf) s2 = exec (drop 49 ?conf) s49"
    by (subst split) (simp add: exec_append mid)
  \<comment> \<open>the value of \<^verbatim>\<open>html_theme_options\<close> when line 284 is reached\<close>
  have "27 < length (take 47 (drop 2 ?conf))"
    by (simp add: length_conf_py)
  moreover have "''html_theme_options'' \<notin> set (concat (drop (Suc 27) (take 47 (drop 2 ?nss))))"
    by (simp add: assignment_targets_def)
  ultimately obtain si si' where
    "(take 47 (drop 2 ?conf) ! 27) si = (Inr (), si')"
    and same: "globals s49 ''html_theme_options'' = globals si' ''html_theme_options''"
    using exec_nth_frame [OF binds_mid mid, of 27 "''html_theme_options''"]
    by blast
  moreover have "take 47 (drop 2 ?conf) ! 27 = ?conf ! 29"
    by (simp add: length_conf_py)
  ultimately have "(?conf ! 29) si = (Inr (), si')"
    by simp
  from conf_py_html_theme_options [OF this] same obtain v a b where
    "globals s49 ''html_theme_options'' = Some v"
    "subscript v ''repository_url'' = Inr a" "subscript v ''repository_branch'' = Inr b"
    by auto
  then have "fst (exec (drop 49 ?conf) s49) = Inr ()"
    by (rule conf_py_thebe_config)
  with whole rest show ?thesis
    by simp
qed

lemma conf_py_outcome:
  "fst (exec (conf_py ext env) startup) = fst (install_ijulia env startup)"
proof (cases "fst (install_ijulia env startup)")
  case (Inl err)
  then show ?thesis
    by (simp add: conf_py_aborts)
next
  case (Inr u)
  then show ?thesis
    by (simp add: conf_py_completes)
qed

lemma conf_py_nb_execution_excludepatterns:
  assumes "exec (conf_py ext env) startup = (Inr (), s)"
  shows "globals s ''nb_execution_excludepatterns'' =
           Some (PList (map PStr (get_nb_exclusion_patterns env)))"
proof -
  let ?conf = "conf_py ext env"
  let ?nss = "[[], [], []] @ map (\<lambda>name. [name]) assignment_targets"
  have "38 < length ?conf"
    by (simp add: length_conf_py)
  moreover have "''nb_execution_excludepatterns'' \<notin> set (concat (drop (Suc 38) ?nss))"
    by (simp add: assignment_targets_def)
  ultimately obtain si si' where step: "(?conf ! 38) si = (Inr (), si')"
    and same: "globals s ''nb_execution_excludepatterns'' =
      globals si' ''nb_execution_excludepatterns''"
    using exec_nth_frame [OF conf_py_binds assms, of 38 "''nb_execution_excludepatterns''"]
    by blast
  from step have "globals si' ''nb_execution_excludepatterns'' =
      Some (PList (map PStr (get_nb_exclusion_patterns env)))"
    unfolding conf_py_def by (auto simp add: assign_def)
  with same show ?thesis
    by simp
qed


lemma concat_targets:
  "concat ([[], [], []] @ map (\<lambda>name. [name]) assignment_targets) = assignment_targets"
  by (simp add: concat_map_singleton)

lemma conf_py_assigned:
  assumes "exec (conf_py ext env) startup = (Inr (), s)"
  shows "assigned s = assignment_targets" and "dom (globals s) = set assignment_targets"
proof -
  from exec_binds [OF conf_py_binds assms]
  have "assigned s = assigned startup @
        concat ([[], [], []] @ map (\<lambda>name. [name]) assignment_targets)"
    and "dom (globals s) = dom (globals startup) \<union>
        set (concat ([[], [], []] @ map (\<lambda>name. [name]) assignment_targets))"
    by blast+
  then show "assigned s = assignment_targets" and "dom (globals s) = set assignment_targets"
    unfolding concat_targets by (simp_all add: startup_def)
qed

lemma distinct_concat_take:
  assumes "distinct (concat nss)"
  shows "distinct (concat (take k nss))"
    and "set (concat (take k nss)) \<inter> set (concat (drop k nss)) = {}"
proof -
  have "concat nss = concat (take k nss) @ concat (drop k nss)"
    by (metis append_take_drop_id concat_append)
  with assms have "distinct (concat (take k nss) @ concat (drop k nss))"
    by simp
  then show "distinct (concat (take k nss))"
    and "set (concat (take k nss)) \<inter> set (concat (drop k nss)) = {}"
    by simp_all
qed

lemma exec_assigned_distinct:
  assumes "list_all2 binds nss sts" and "distinct (concat nss)" and "assigned s = []"
  shows "distinct (assigned (snd (exec sts s)))"
proof -
  obtain r s' where run: "exec sts s = (r, s')"
    by (cases "exec sts s")
  from exec_binds [OF assms(1) run] assms(3) obtain k
    where "assigned s' = concat (take k nss)"
    by auto
  with distinct_concat_take(1) [OF assms(2), of k] run show ?thesis
    by simp
qed

lemma exec_read_only:
  assumes "list_all2 binds nss sts" and "distinct (concat nss)"
    and "dom (globals s) \<inter> set (concat nss) = {}"
    and "globals (snd (exec (take k sts) s)) n = Some v"
  shows "globals (snd (exec sts s)) n = Some v"
proof -
  obtain r1 s1 where before: "exec (take k sts) s = (r1, s1)"
    by (cases "exec (take k sts) s")
  with assms(4) have bound: "globals s1 n = Some v"
    by simp
  have whole: "exec sts s =
      (case exec (take k sts) s of
         (Inl err, s') \<Rightarrow> (Inl err, s') | (Inr u, s') \<Rightarrow> exec (drop k sts) s')"
    using exec_append [of "take k sts" "drop k sts" s] by simp
  show ?thesis
  proof (cases r1)
    case (Inl err)
    with whole before bound show ?thesis
      by simp
  next
    case (Inr u)
    with whole before have after: "exec sts s = exec (drop k sts) s1"
      by simp
    obtain r s' where rest: "exec (drop k sts) s1 = (r, s')"
      by (cases "exec (drop k sts) s1")
    have "list_all2 binds (take k nss) (take k sts)"
      using assms(1) by (rule list_all2_takeI)
    from exec_binds [OF this before] Inr
    have "dom (globals s1) = dom (globals s) \<union> set (concat (take k nss))"
      by simp
    with bound have "n \<in> dom (globals s) \<or> n \<in> set (concat (take k nss))"
      by auto
    moreover have "set (concat (drop k nss)) \<subseteq> set (concat nss)"
      by (metis append_take_drop_id concat_append set_append sup_ge2)
    ultimately have "n \<notin> set (concat (drop k nss))"
      using assms(3) distinct_concat_take(2) [OF assms(2), of k] by blast
    moreover have "list_all2 binds (drop k nss) (drop k sts)"
      using assms(1) by (rule list_all2_dropI)
    ultimately have "globals s' n = globals s1 n"
      using exec_binds [OF _ rest] by blast
    with after rest bound show ?thesis
      by simp
  qed
qed


text \<open>
  Claim C8, as amended. The exclusion patterns are computed once at startup, by
  conditionally adding the platform-dependent subset \<^verbatim>\<open>{"report/019*"}\<close> to the fixed
  base set, and nothing is ever removed: in every environment the returned list holds
  the base set, extended by \<^verbatim>\<open>julia_notebooks\<close> (which is disjoint from the base set)
  exactly when \<^verbatim>\<open>julia\<close> is not found or \<^verbatim>\<open>READTHEDOCS\<close> is set. When the module
  runs to its end, \<^verbatim>\<open>nb_execution_excludepatterns\<close> has been bound exactly once, to
  that list (line 264).
\<close>

theorem exclusions_only_extended:
  "set (get_nb_exclusion_patterns env) =
     exclusions \<union>
       (if which env ''julia'' = None \<or> ''READTHEDOCS'' \<in> dom (environ env)
        then julia_notebooks else {}) \<and>
   exclusions - set (get_nb_exclusion_patterns env) = {} \<and>
   exclusions \<inter> julia_notebooks = {} \<and>
   (fst (exec (conf_py ext env) startup) = Inr () \<longrightarrow>
      count_list (assigned (snd (exec (conf_py ext env) startup)))
        ''nb_execution_excludepatterns'' = 1 \<and>
      globals (snd (exec (conf_py ext env) startup)) ''nb_execution_excludepatterns'' =
        Some (PList (map PStr (get_nb_exclusion_patterns env))))"
proof (intro conjI impI)
  show "set (get_nb_exclusion_patterns env) =
      exclusions \<union>
        (if which env ''julia'' = None \<or> ''READTHEDOCS'' \<in> dom (environ env)
         then julia_notebooks else {})"
    by (simp add: set_get_nb_exclusion_patterns)
  show "exclusions - set (get_nb_exclusion_patterns env) = {}"
    by (simp add: set_get_nb_exclusion_patterns)
  show "exclusions \<inter> julia_notebooks = {}"
    using julia_notebooks_fresh by (simp add: julia_notebooks_def)
next
  assume "fst (exec (conf_py ext env) startup) = Inr ()"
  then have run: "exec (conf_py ext env) startup =
      (Inr (), snd (exec (conf_py ext env) startup))"
    by (metis prod.collapse)
  have "count_list assignment_targets ''nb_execution_excludepatterns'' = 1"
    by (simp add: assignment_targets_def)
  then show "count_list (assigned (snd (exec (conf_py ext env) startup)))
      ''nb_execution_excludepatterns'' = 1"
    by (simp only: conf_py_assigned(1) [OF run])
  show "globals (snd (exec (conf_py ext env) startup)) ''nb_execution_excludepatterns'' =
      Some (PList (map PStr (get_nb_exclusion_patterns env)))"
    using run by (rule conf_py_nb_execution_excludepatterns)
qed

theorem exclusions_only_extended_witness:
  "fst (exec (conf_py ext_sample env_bare) startup) = Inr () \<and>
   count_list (assigned (snd (exec (conf_py ext_sample env_bare) startup)))
     ''nb_execution_excludepatterns'' = 1 \<and>
   globals (snd (exec (conf_py ext_sample env_bare) startup))
     ''nb_execution_excludepatterns'' =
     Some (PList (map PStr
       [''adr/001/*'', ''adr/002/*'', ''report/000*'', ''report/001*'', ''report/002*'',
        ''report/005*'', ''report/008*'', ''report/009*'', ''report/010*'', ''report/011*'',
        ''report/012*'', ''report/013*'', ''report/014*'', ''report/015*'', ''report/017*'',
        ''report/018*'', ''report/019*'', ''report/020*'', ''report/021*'', ''report/022*'',
        ''report/033*'']))"
proof -
  have "fst (install_ijulia env_bare startup) = Inr ()"
    by (simp add: install_ijulia_def env_bare_def)
  then have completes: "fst (exec (conf_py ext_sample env_bare) startup) = Inr ()"
    by (rule conf_py_completes)
  have "which env_bare ''julia'' = None"
    by (simp add: env_bare_def)
  then have "get_nb_exclusion_patterns env_bare =
      sorted_list_of_set (exclusions \<union> julia_notebooks)"
    by (simp add: get_nb_exclusion_patterns_cases)
  with exclusions_only_extended [of env_bare ext_sample] completes show ?thesis
    by (simp only: sorted_exclusions_julia)
qed

text \<open>
  Claim C8 as it is stated, that the computation both adds and removes patterns, fails:
  where \<^verbatim>\<open>julia\<close> is absent one pattern is added and none removed, and where it is
  present (and \<^verbatim>\<open>READTHEDOCS\<close> unset) nothing is added and nothing removed.
\<close>

theorem adds_and_removes_counterexample:
  "\<not> (set (get_nb_exclusion_patterns env_bare) - exclusions \<noteq> {} \<and>
       exclusions - set (get_nb_exclusion_patterns env_bare) \<noteq> {}) \<and>
   \<not> (set (get_nb_exclusion_patterns env_julia) - exclusions \<noteq> {} \<and>
       exclusions - set (get_nb_exclusion_patterns env_julia) \<noteq> {}) \<and>
   set (get_nb_exclusion_patterns env_bare) - exclusions = {''report/019*''} \<and>
   exclusions - set (get_nb_exclusion_patterns env_bare) = {}"
proof -
  have bare: "set (get_nb_exclusion_patterns env_bare) = exclusions \<union> julia_notebooks"
    by (simp add: set_get_nb_exclusion_patterns env_bare_def)
  have julia: "set (get_nb_exclusion_patterns env_julia) = exclusions"
    by (simp add: set_get_nb_exclusion_patterns env_julia_def)
  from julia_notebooks_fresh
  have "exclusions \<union> julia_notebooks - exclusions = {''report/019*''}"
    by (auto simp add: julia_notebooks_def)
  with bare julia show ?thesis
    by simp
qed

text \<open>
  Claim C9. No name is bound twice by the module body, in any run. A run that reaches the
  end of the file has bound each of the 48 configuration variables exactly once, in
  source order, and no other name. Once a global variable holds a value, it holds the
  same value at the end of the run: whatever is bound after the first \<open>k\<close> statements
  is still bound to that value when the run ends, so nothing is reassigned or mutated.
\<close>

theorem conf_py_assigned_once:
  "distinct (assigned (snd (exec (conf_py ext env) startup))) \<and>
   (fst (exec (conf_py ext env) startup) = Inr () \<longrightarrow>
      assigned (snd (exec (conf_py ext env) startup)) = assignment_targets \<and>
      dom (globals (snd (exec (conf_py ext env) startup))) = set assignment_targets) \<and>
   (globals (snd (exec (take k (conf_py ext env)) startup)) name = Some v \<longrightarrow>
      globals (snd (exec (conf_py ext env) startup)) name = Some v)"
proof (intro conjI impI)
  have distinct_targets:
    "distinct (concat ([[], [], []] @ map (\<lambda>name. [name]) assignment_targets))"
    unfolding concat_targets by (rule distinct_assignment_targets)
  show "distinct (assigned (snd (exec (conf_py ext env) startup)))"
    by (rule exec_assigned_distinct [OF conf_py_binds distinct_targets])
      (simp add: startup_def)
  show "globals (snd (exec (conf_py ext env) startup)) name = Some v"
    if "globals (snd (exec (take k (conf_py ext env)) startup)) name = Some v"
    by (rule exec_read_only [OF conf_py_binds distinct_targets _ that])
      (simp add: startup_def)
next
  assume "fst (exec (conf_py ext env) startup) = Inr ()"
  then have run: "exec (conf_py ext env) startup =
      (Inr (), snd (exec (conf_py ext env) startup))"
    by (metis prod.collapse)
  show "assigned (snd (exec (conf_py ext env) startup)) = assignment_targets"
    by (rule conf_py_assigned(1) [OF run])
  show "dom (globals (snd (exec (conf_py ext env) startup))) = set assignment_targets"
    by (rule conf_py_assigned(2) [OF run])
qed

theorem conf_py_assigned_once_witness:
  "fst (exec (conf_py ext_sample env_julia) startup) = Inr () \<and>
   assigned (snd (exec (conf_py ext_sample env_julia) startup)) = assignment_targets \<and>
   distinct (assigned (snd (exec (conf_py ext_sample env_julia) startup))) \<and>
   globals (snd (exec (take 5 (conf_py ext_sample env_julia)) startup)) ''ORGANIZATION'' =
     Some (PStr ''ComPWA'') \<and>
   globals (snd (exec (conf_py ext_sample env_julia) startup)) ''ORGANIZATION'' =
     Some (PStr ''ComPWA'')"
proof -
  have "fst (install_ijulia env_julia startup) = Inr ()"
    by (simp add: install_ijulia_def env_julia_def)
  then have completes: "fst (exec (conf_py ext_sample env_julia) startup) = Inr ()"
    by (rule conf_py_completes)
  have early:
    "globals (snd (exec (take 5 (conf_py ext_sample env_julia)) startup)) ''ORGANIZATION'' =
       Some (PStr ''ComPWA'')"
    by (simp add: conf_py_def call_external_def install_ijulia_def env_julia_def startup_def
        assign_def)
  from conf_py_assigned_once [of ext_sample env_julia 5 "''ORGANIZATION''" "PStr ''ComPWA''"]
    completes early
  show ?thesis
    by blast
qed

end
